theory Spec2Isabelle
  imports Main "HOL-Library.Sublist"
begin

section \<open>The chat controller of static/script.js\<close>

text \<open>
  The class \<open>ChatBot\<close> is embedded as a record of its three fields, of the properties of
  the DOM elements it reads and writes, and of the browser facilities it drives (outgoing
  \<open>fetch\<close> calls, pending timers, the console). Every method is a function from state
  to state. Readings of the clock, of the random generator and of the locale's time format
  are arguments of the method that takes them.

  A JavaScript string is a \<open>string\<close>: a list of code units, here restricted to the
  code units below 256. Pixel geometry (\<open>autoResize\<close>, \<open>scrollTop\<close>), keyboard focus
  and CSS class names are layout, and are not part of the state.
\<close>

subsection \<open>Strings\<close>

text \<open>\<open>String.prototype.trim\<close> removes white space and line terminators at both ends.
  Below 256 these are TAB, LF, VT, FF, CR, SP and NBSP.\<close>

definition isWhiteSpace :: "char \<Rightarrow> bool" where
  "isWhiteSpace c =
     (c = CHR 0x09 \<or> c = CHR 0x0A \<or> c = CHR 0x0B \<or> c = CHR 0x0C \<or> c = CHR 0x0D
      \<or> c = CHR 0x20 \<or> c = CHR 0xA0)"

definition trim :: "string \<Rightarrow> string" where
  "trim s = rev (dropWhile isWhiteSpace (rev (dropWhile isWhiteSpace s)))"

text \<open>A string is truthy when it is not empty.\<close>

definition truthy :: "string \<Rightarrow> bool" where
  "truthy s = (s \<noteq> [])"

text \<open>Number to string conversion of a non-negative integer, as in a template literal.\<close>

definition digit_char :: "nat \<Rightarrow> char" where
  "digit_char d = ''0123456789'' ! (d mod 10)"

function string_of_nat :: "nat \<Rightarrow> string" where
  "string_of_nat n =
     (if n < 10 then [digit_char n] else string_of_nat (n div 10) @ [digit_char (n mod 10)])"
  by pat_completeness auto
termination
  by (relation "measure id") auto

declare string_of_nat.simps [simp del]

subsection \<open>formatMessage\<close>

text \<open>\<open>.replace(/\n/g, '<br>')\<close>\<close>

fun replaceNewlines :: "string \<Rightarrow> string" where
  "replaceNewlines [] = []"
| "replaceNewlines (c # cs) =
     (if c = CHR 0x0A then ''<br>'' @ replaceNewlines cs else c # replaceNewlines cs)"

text \<open>The dot of a regular expression matches every code unit but a line terminator.\<close>

definition isLineTerminator :: "char \<Rightarrow> bool" where
  "isLineTerminator c = (c = CHR 0x0A \<or> c = CHR 0x0D)"

text \<open>
  \<open>lazyGroup d s\<close> matches \<open>(.*?)\<close> followed by the closing delimiter \<open>d\<close> at the
  start of \<open>s\<close>: the shortest run of non-terminators after which \<open>d\<close> stands. It
  returns the group and the text after the closing delimiter.
\<close>

fun lazyGroup :: "string \<Rightarrow> string \<Rightarrow> (string \<times> string) option" where
  "lazyGroup d [] = (if d = [] then Some ([], []) else None)"
| "lazyGroup d (c # cs) =
     (if prefix d (c # cs) then Some ([], drop (length d) (c # cs))
      else if isLineTerminator c then None
      else (case lazyGroup d cs of
              None \<Rightarrow> None
            | Some (g, r) \<Rightarrow> Some (c # g, r)))"

text \<open>
  \<open>.replace(/D(.*?)D/g, 'OPEN$1CLOSE')\<close> for a literal delimiter \<open>D\<close>: the text is
  scanned from the left; where a match starts it is replaced and the scan goes on after
  it, elsewhere the code unit is copied.
\<close>

function replaceDelimited :: "string \<Rightarrow> string \<Rightarrow> string \<Rightarrow> string \<Rightarrow> string" where
  "replaceDelimited d opn cls [] = []"
| "replaceDelimited d opn cls (c # cs) =
     (if d \<noteq> [] \<and> prefix d (c # cs) then
        (case lazyGroup d (drop (length d) (c # cs)) of
           Some (g, r) \<Rightarrow> opn @ g @ cls @ replaceDelimited d opn cls r
         | None \<Rightarrow> c # replaceDelimited d opn cls cs)
      else c # replaceDelimited d opn cls cs)"
  by pat_completeness auto
termination
proof (relation "measure (\<lambda>(d, opn, cls, s). length s)")
  show "wf (measure (\<lambda>(d, opn, cls, s). length s))" by simp
next
  fix d opn cls :: string and c cs x2 x y
  assume d: "d \<noteq> [] \<and> prefix d (c # cs)"
    and g: "lazyGroup d (drop (length d) (c # cs)) = Some x2" "(x, y) = x2"
  have shorter: "lazyGroup d s = Some (g, r) \<Longrightarrow> length r \<le> length s" for s g r
    by (induction s arbitrary: g r) (auto split: if_splits option.splits)
  from g have "length y \<le> length (drop (length d) (c # cs))"
    using shorter [of "drop (length d) (c # cs)" x y] by simp
  moreover from d have "length (drop (length d) (c # cs)) < length (c # cs)"
    by (cases d) auto
  ultimately show "((d, opn, cls, y), (d, opn, cls, c # cs))
      \<in> measure (\<lambda>(d, opn, cls, s). length s)"
    by simp
qed auto

definition formatMessage :: "string \<Rightarrow> string" where
  "formatMessage text_in =
     replaceDelimited ''`'' ''<code>'' ''</code>''
       (replaceDelimited ''*'' ''<em>'' ''</em>''
          (replaceDelimited ''**'' ''<strong>'' ''</strong>''
             (replaceNewlines text_in)))"

subsection \<open>State\<close>

datatype sender = User | Assistant

text \<open>An entry of \<open>messageHistory\<close>: the object \<open>{ text, sender, timestamp }\<close>.\<close>

record message =
  "text" :: string
  sender :: sender
  timestamp :: string

text \<open>A child of \<open>chatMessages\<close>: the \<open>div\<close> that \<open>addMessage\<close> builds. The avatar
  is a function of the sender; \<open>bubble\<close> and \<open>time\<close> are the markup that the template
  places into \<open>message-bubble\<close> and \<open>message-time\<close> through \<open>innerHTML\<close>.\<close>

record element =
  avatar_of :: sender
  bubble :: string
  time :: string

text \<open>The body of a request: \<open>{ question, session_id }\<close>.\<close>

record request =
  question :: string
  session_id :: "string option"

datatype callback = HideError | ScrollToBottom

record chatbot =
  sessionId :: "string option"
  isTyping :: bool
  messageHistory :: "message list"
  messageInput_value :: string
  sendBtn_disabled :: bool
  charCounter_textContent :: string
  charCounter_color :: string
  welcomeScreen_display :: string
  chatInterface_display :: string
  typingIndicator_display :: string
  loadingOverlay_display :: string
  errorToast_display :: string
  errorMessage_textContent :: string
  chatMessages :: "element list"
  fetched :: "request list"
  pending :: "request list"
  timers :: "(nat \<times> callback) list"
  console_error :: "(string \<times> string) list"

text \<open>
  \<open>fetched\<close> lists every call of \<open>fetch\<close> so far, \<open>pending\<close> those whose promise has
  not settled: each stands for a suspended \<open>sendMessage\<close>. \<open>timers\<close> are the callbacks
  given to \<open>setTimeout\<close> that have not run, with their delay in milliseconds.
\<close>

subsection \<open>Methods\<close>

definition generateSessionId :: "nat \<Rightarrow> string \<Rightarrow> chatbot \<Rightarrow> chatbot" where
  \<comment> \<open>\<open>now\<close> is \<open>Date.now()\<close>, \<open>rnd\<close> is \<open>Math.random().toString(36).substr(2, 9)\<close>\<close>
  "generateSessionId now rnd s =
     s\<lparr>sessionId := Some (''session_'' @ string_of_nat now @ ''_'' @ rnd)\<rparr>"

definition handleInputChange :: "chatbot \<Rightarrow> chatbot" where
  "handleInputChange s =
     (let text_v = trim (messageInput_value s);
          charCount = length (messageInput_value s);
          s1 = s\<lparr>charCounter_textContent := string_of_nat charCount @ ''/1000''\<rparr>;
          s2 = s1\<lparr>sendBtn_disabled := (\<not> truthy text_v \<or> isTyping s1)\<rparr>
      in if charCount > 900 then s2\<lparr>charCounter_color := ''var(--warning-color)''\<rparr>
         else if charCount > 950 then s2\<lparr>charCounter_color := ''var(--error-color)''\<rparr>
         else s2\<lparr>charCounter_color := ''var(--text-light)''\<rparr>)"

definition showWelcomeScreen :: "chatbot \<Rightarrow> chatbot" where
  "showWelcomeScreen s = s\<lparr>welcomeScreen_display := ''flex'', chatInterface_display := ''none''\<rparr>"

definition showChatInterface :: "chatbot \<Rightarrow> chatbot" where
  "showChatInterface s = s\<lparr>welcomeScreen_display := ''none'', chatInterface_display := ''flex''\<rparr>"

definition scrollToBottom :: "chatbot \<Rightarrow> chatbot" where
  "scrollToBottom s = s\<lparr>timers := timers s @ [(100, ScrollToBottom)]\<rparr>"

text \<open>\<open>addMessage\<close> can throw: \<open>formatMessage\<close> calls \<open>text.replace\<close>, a \<open>TypeError\<close>
  when \<open>text\<close> is \<open>undefined\<close> (here \<open>None\<close>). It throws before it has changed anything.
  \<open>ts\<close> is the reading of \<open>toLocaleTimeString\<close>.\<close>

definition addMessage :: "string option \<Rightarrow> sender \<Rightarrow> string \<Rightarrow> chatbot \<Rightarrow> string + chatbot" where
  "addMessage text_o sndr ts s =
     (case text_o of
        None \<Rightarrow> Inl ''Cannot read properties of undefined (reading 'replace')''
      | Some text_v \<Rightarrow>
          (let s1 = s\<lparr>chatMessages := chatMessages s @
                         [\<lparr>avatar_of = sndr, bubble = formatMessage text_v, time = ts\<rparr>]\<rparr>;
               s2 = scrollToBottom s1
           in Inr (s2\<lparr>messageHistory := messageHistory s2 @
                         [\<lparr>text = text_v, sender = sndr, timestamp = ts\<rparr>]\<rparr>)))"

definition showTypingIndicator :: "chatbot \<Rightarrow> chatbot" where
  "showTypingIndicator s =
     scrollToBottom (s\<lparr>isTyping := True, sendBtn_disabled := True,
                       typingIndicator_display := ''block''\<rparr>)"

definition hideTypingIndicator :: "chatbot \<Rightarrow> chatbot" where
  "hideTypingIndicator s =
     (handleInputChange (s\<lparr>isTyping := False\<rparr>))\<lparr>typingIndicator_display := ''none''\<rparr>"

definition showError :: "string \<Rightarrow> chatbot \<Rightarrow> chatbot" where
  "showError msg s =
     s\<lparr>errorMessage_textContent := msg, errorToast_display := ''block'',
       timers := timers s @ [(5000, HideError)]\<rparr>"

definition hideError :: "chatbot \<Rightarrow> chatbot" where
  "hideError s = s\<lparr>errorToast_display := ''none''\<rparr>"

definition showLoading :: "chatbot \<Rightarrow> chatbot" where
  "showLoading s = s\<lparr>loadingOverlay_display := ''flex''\<rparr>"

definition hideLoading :: "chatbot \<Rightarrow> chatbot" where
  "hideLoading s = s\<lparr>loadingOverlay_display := ''none''\<rparr>"

subsection \<open>The request\<close>

text \<open>
  What the server sends back. A parsed body is an object whose members \<open>answer\<close>,
  \<open>session_id\<close> and \<open>detail\<close> are strings or absent; \<open>body = None\<close> is a body that
  \<open>response.json()\<close> rejects. \<open>NetworkFailure\<close> is a rejected \<open>fetch\<close>.
\<close>

record body =
  answer :: "string option"
  server_session_id :: "string option"
  detail :: "string option"

record response =
  ok :: bool
  status :: nat
  parsed :: "body option"

datatype outcome = NetworkFailure string | Response response

text \<open>The first half of \<open>sendToAPI\<close>: the call of \<open>fetch\<close>.\<close>

definition sendToAPI_call :: "string \<Rightarrow> chatbot \<Rightarrow> chatbot" where
  "sendToAPI_call msg s =
     (let req = \<lparr>question = msg, session_id = sessionId s\<rparr>
      in s\<lparr>fetched := fetched s @ [req], pending := pending s @ [req]\<rparr>)"

text \<open>The second half, after \<open>await fetch\<close>: the body, or the message of the error thrown.
  The wording of the \<open>SyntaxError\<close> for a body that does not parse is the browser's; it
  only reaches the console.\<close>

definition sendToAPI_result :: "outcome \<Rightarrow> string + body" where
  "sendToAPI_result out =
     (case out of
        NetworkFailure e \<Rightarrow> Inl e
      | Response r \<Rightarrow>
          if \<not> ok r then
            (let errorData_detail = (case parsed r of None \<Rightarrow> None | Some b \<Rightarrow> detail b)
             in case errorData_detail of
                  Some d \<Rightarrow> if truthy d then Inl d else Inl (''HTTP '' @ string_of_nat (status r))
                | None \<Rightarrow> Inl (''HTTP '' @ string_of_nat (status r)))
          else (case parsed r of
                  None \<Rightarrow> Inl ''Unexpected end of JSON input''
                | Some b \<Rightarrow> Inr b))"

subsection \<open>sendMessage\<close>

text \<open>\<open>sendMessage\<close> up to its \<open>await\<close>.\<close>

definition sendMessage :: "string \<Rightarrow> chatbot \<Rightarrow> chatbot" where
  "sendMessage ts s =
     (let msg = trim (messageInput_value s)
      in if \<not> truthy msg \<or> isTyping s then s
         else
           (let s1 = handleInputChange (s\<lparr>messageInput_value := []\<rparr>);
                s2 = (if chatInterface_display s1 = ''none'' then showChatInterface s1 else s1)
            in case addMessage (Some msg) User ts s2 of
                 Inl e \<Rightarrow> s2
               | Inr s3 \<Rightarrow> sendToAPI_call msg (showTypingIndicator s3)))"

text \<open>The \<open>catch\<close> and \<open>finally\<close> blocks.\<close>

definition sendMessage_catch :: "string \<Rightarrow> chatbot \<Rightarrow> chatbot" where
  "sendMessage_catch err s =
     (let s1 = hideTypingIndicator s;
          s2 = showError ''Failed to get response. Please try again.'' s1
      in s2\<lparr>console_error := console_error s2 @ [(''Chat error:'', err)]\<rparr>)"

definition sendMessage_finally :: "chatbot \<Rightarrow> chatbot" where
  "sendMessage_finally s = handleInputChange (s\<lparr>isTyping := False\<rparr>)"

text \<open>\<open>sendMessage\<close> from its \<open>await\<close> on, once the request has settled with \<open>out\<close>.\<close>

definition sendMessage_resume :: "outcome \<Rightarrow> string \<Rightarrow> chatbot \<Rightarrow> chatbot" where
  "sendMessage_resume out ts s =
     sendMessage_finally
       (case sendToAPI_result out of
          Inl err \<Rightarrow> sendMessage_catch err s
        | Inr b \<Rightarrow>
            (let s1 = hideTypingIndicator s
             in case addMessage (answer b) Assistant ts s1 of
                  Inl err \<Rightarrow> sendMessage_catch err s1
                | Inr s2 \<Rightarrow>
                    (case server_session_id b of
                       Some sid \<Rightarrow> if truthy sid then s2\<lparr>sessionId := Some sid\<rparr> else s2
                     | None \<Rightarrow> s2)))"

definition askSampleQuestion :: "string \<Rightarrow> string \<Rightarrow> chatbot \<Rightarrow> chatbot" where
  "askSampleQuestion q ts s = sendMessage ts (handleInputChange (s\<lparr>messageInput_value := q\<rparr>))"

subsection \<open>startNewChat\<close>

text \<open>Nothing in the \<open>try\<close> block throws, so the \<open>catch\<close> block never runs.\<close>

definition startNewChat :: "nat \<Rightarrow> string \<Rightarrow> chatbot \<Rightarrow> chatbot" where
  "startNewChat now rnd s =
     (let s1 = showLoading s;
          s2 = generateSessionId now rnd s1;
          s3 = s2\<lparr>chatMessages := [], messageHistory := []\<rparr>;
          s4 = showWelcomeScreen s3;
          s5 = hideLoading s4
      in handleInputChange (s5\<lparr>messageInput_value := []\<rparr>))"

subsection \<open>Export\<close>

datatype json = JString string | JArray "json list" | JObject "(string \<times> json) list"

definition hex_digit :: "nat \<Rightarrow> char" where
  "hex_digit n = ''0123456789abcdef'' ! (n mod 16)"

text \<open>\<open>QuoteJSONString\<close>: the escapes of \<open>JSON.stringify\<close> for one code unit.\<close>

definition quoteChar :: "char \<Rightarrow> string" where
  "quoteChar c =
     (if c = CHR 0x22 then [CHR 0x5C, CHR 0x22]
      else if c = CHR 0x5C then [CHR 0x5C, CHR 0x5C]
      else if c = CHR 0x08 then [CHR 0x5C, CHR ''b'']
      else if c = CHR 0x0C then [CHR 0x5C, CHR ''f'']
      else if c = CHR 0x0A then [CHR 0x5C, CHR ''n'']
      else if c = CHR 0x0D then [CHR 0x5C, CHR ''r'']
      else if c = CHR 0x09 then [CHR 0x5C, CHR ''t'']
      else if (of_char c :: nat) < 32 then
        [CHR 0x5C, CHR ''u'', CHR ''0'', CHR ''0'',
         hex_digit (of_char c div 16), hex_digit (of_char c)]
      else [c])"

definition quoteJSONString :: "string \<Rightarrow> string" where
  "quoteJSONString s = [CHR 0x22] @ concat (map quoteChar s) @ [CHR 0x22]"

fun join :: "string \<Rightarrow> string list \<Rightarrow> string" where
  "join sep [] = []"
| "join sep [x] = x"
| "join sep (x # y # ys) = x @ sep @ join sep (y # ys)"

text \<open>\<open>JSON.stringify(value, null, 2)\<close>; \<open>ind\<close> is the indentation reached so far.\<close>

fun stringify :: "string \<Rightarrow> json \<Rightarrow> string" where
  "stringify ind (JString s) = quoteJSONString s"
| "stringify ind (JArray xs) =
     (if xs = [] then ''[]''
      else ''['' @ [CHR 0x0A] @ (ind @ ''  '')
           @ join ('','' @ [CHR 0x0A] @ (ind @ ''  '')) (map (stringify (ind @ ''  '')) xs)
           @ [CHR 0x0A] @ ind @ '']'')"
| "stringify ind (JObject kvs) =
     (if kvs = [] then ''{}''
      else ''{'' @ [CHR 0x0A] @ (ind @ ''  '')
           @ join ('','' @ [CHR 0x0A] @ (ind @ ''  ''))
               (map (\<lambda>kv. quoteJSONString (fst kv) @ '': '' @ stringify (ind @ ''  '') (snd kv)) kvs)
           @ [CHR 0x0A] @ ind @ ''}'')"

definition sender_string :: "sender \<Rightarrow> string" where
  "sender_string sndr = (case sndr of User \<Rightarrow> ''user'' | Assistant \<Rightarrow> ''assistant'')"

text \<open>The value that \<open>JSON.stringify\<close> sees in an entry of the history.\<close>

definition message_json :: "message \<Rightarrow> json" where
  "message_json m =
     JObject [(''text'', JString (text m)),
              (''sender'', JString (sender_string (sender m))),
              (''timestamp'', JString (timestamp m))]"

definition getChatHistory :: "chatbot \<Rightarrow> message list" where
  "getChatHistory s = messageHistory s"

record download =
  filename :: string
  mime :: string
  content :: string

text \<open>
  \<open>exportChatHistory\<close> builds a blob and clicks a link that it adds to the document and
  removes again. \<open>iso_date\<close> is \<open>new Date().toISOString()\<close>. The result is the file offered
  and the state after the call.
\<close>

definition exportChatHistory :: "string \<Rightarrow> chatbot \<Rightarrow> download \<times> chatbot" where
  "exportChatHistory iso_date s =
     (let history = getChatHistory s
      in (\<lparr>filename = ''gentaxai-chat-'' @ takeWhile (\<lambda>c. c \<noteq> CHR ''T'') iso_date @ ''.json'',
           mime = ''application/json'',
           content = stringify [] (JArray (map message_json history))\<rparr>, s))"

subsection \<open>Events\<close>

text \<open>
  The listeners that \<open>attachEventListeners\<close> and the page install, the settling of a
  pending request and the firing of a pending timer. An event that cannot occur (no such
  request, no such timer) has no successor state.
\<close>

datatype event =
    Input string
  | Send string
  | Sample string string
  | NewChat nat string
  | Settle nat outcome string
  | Timer nat
  | Offline
  | GlobalError string
  | Export string

definition remove_nth :: "nat \<Rightarrow> 'a list \<Rightarrow> 'a list" where
  "remove_nth i xs = take i xs @ drop (Suc i) xs"

definition run_callback :: "callback \<Rightarrow> chatbot \<Rightarrow> chatbot" where
  "run_callback cb s = (case cb of HideError \<Rightarrow> hideError s | ScrollToBottom \<Rightarrow> s)"

definition step :: "event \<Rightarrow> chatbot \<Rightarrow> chatbot option" where
  "step e s =
     (case e of
        Input v \<Rightarrow> Some (handleInputChange (s\<lparr>messageInput_value := v\<rparr>))
      | Send ts \<Rightarrow> Some (sendMessage ts s)
      | Sample q ts \<Rightarrow> Some (askSampleQuestion q ts s)
      | NewChat now rnd \<Rightarrow> Some (startNewChat now rnd s)
      | Settle i out ts \<Rightarrow>
          if i < length (pending s)
          then Some (sendMessage_resume out ts (s\<lparr>pending := remove_nth i (pending s)\<rparr>))
          else None
      | Timer i \<Rightarrow>
          if i < length (timers s)
          then Some (run_callback (snd (timers s ! i)) (s\<lparr>timers := remove_nth i (timers s)\<rparr>))
          else None
      | Offline \<Rightarrow> Some (showError ''You are offline. Please check your connection.'' s)
      | GlobalError err \<Rightarrow>
          Some (showError ''An unexpected error occurred. Please refresh the page.''
                  (s\<lparr>console_error := console_error s @ [(''Global error:'', err)]\<rparr>))
      | Export iso_date \<Rightarrow> Some (snd (exportChatHistory iso_date s)))"

fun run :: "event list \<Rightarrow> chatbot \<Rightarrow> chatbot option" where
  "run [] s = Some s"
| "run (e # es) s = (case step e s of None \<Rightarrow> None | Some s' \<Rightarrow> run es s')"

text \<open>
  The constructor, on the page as loaded: \<open>page\<close> gives the properties of the DOM elements
  that the constructor does not set.
\<close>

definition new_ChatBot :: "nat \<Rightarrow> string \<Rightarrow> chatbot \<Rightarrow> chatbot" where
  "new_ChatBot now rnd page =
     showWelcomeScreen
       (generateSessionId now rnd
          (page\<lparr>sessionId := None, isTyping := False, messageHistory := []\<rparr>))"

text \<open>The states of a session: no request is in flight when the page has loaded.\<close>

inductive reachable :: "chatbot \<Rightarrow> bool" where
  init: "pending page = [] \<Longrightarrow> reachable (new_ChatBot now rnd page)"
| next_state: "reachable s \<Longrightarrow> step e s = Some s' \<Longrightarrow> reachable s'"

subsection \<open>The interaction states of the specification\<close>

datatype interaction = Idle | Composing | AwaitingResponse | Errored

text \<open>
  The controller keeps no interaction state of its own. It is read off the flag
  \<open>isTyping\<close>, the error toast and the input: a request in flight is awaiting a response,
  a displayed toast is the error state, and a non-blank input is composing.
\<close>

definition interactionState :: "chatbot \<Rightarrow> interaction" where
  "interactionState s =
     (if isTyping s then AwaitingResponse
      else if errorToast_display s = ''block'' then Errored
      else if truthy (trim (messageInput_value s)) then Composing
      else Idle)"

subsection \<open>What the \<open>try\<close> block throws\<close>

text \<open>The message of the error that reaches \<open>catch\<close> for an outcome, if any: an error
  thrown by \<open>sendToAPI\<close>, or the \<open>TypeError\<close> of \<open>addMessage\<close> on a missing answer.\<close>

definition thrown :: "outcome \<Rightarrow> string option" where
  "thrown out =
     (case sendToAPI_result out of
        Inl err \<Rightarrow> Some err
      | Inr b \<Rightarrow> (case answer b of
                    None \<Rightarrow> Some ''Cannot read properties of undefined (reading 'replace')''
                  | Some a \<Rightarrow> None))"


text \<open>A request is in flight exactly when \<open>isTyping\<close> is set, and then it is the only one.\<close>

definition in_flight_ok :: "chatbot \<Rightarrow> bool" where
  "in_flight_ok s = (if isTyping s then length (pending s) = 1 else pending s = [])"


subsection \<open>A session\<close>

text \<open>A page as loaded, the controller constructed on it, and the state after the user
  has typed \<open>"  Hello  "\<close> and pressed send.\<close>

definition page0 :: chatbot where
  "page0 =
     \<lparr>sessionId = None, isTyping = False, messageHistory = [], messageInput_value = [],
      sendBtn_disabled = True, charCounter_textContent = ''0/1000'', charCounter_color = [],
      welcomeScreen_display = [], chatInterface_display = [], typingIndicator_display = [],
      loadingOverlay_display = [], errorToast_display = [], errorMessage_textContent = [],
      chatMessages = [], fetched = [], pending = [], timers = [], console_error = []\<rparr>"

definition loaded0 :: chatbot where
  "loaded0 = new_ChatBot 1700000000000 ''k3j9x2m1q'' page0"

definition awaiting0 :: chatbot where
  "awaiting0 = sendMessage ''10:00'' (handleInputChange (loaded0\<lparr>messageInput_value := ''  Hello  ''\<rparr>))"

definition reply_ok :: outcome where
  "reply_ok = Response \<lparr>ok = True, status = 200,
       parsed = Some \<lparr>answer = Some ''Hi!'', server_session_id = Some ''srv1'', detail = None\<rparr>\<rparr>"

definition reply_500 :: outcome where
  "reply_500 = Response \<lparr>ok = False, status = 500,
       parsed = Some \<lparr>answer = None, server_session_id = None,
                      detail = Some ''index unavailable''\<rparr>\<rparr>"

definition superseded0 :: chatbot where
  "superseded0 = startNewChat 1700000005000 ''zzzzzzzzz'' awaiting0"

definition stale0 :: chatbot where
  "stale0 = sendMessage_resume reply_ok ''10:02''
              (superseded0\<lparr>pending := remove_nth 0 (pending superseded0)\<rparr>)"

definition errored0 :: chatbot where
  "errored0 = sendMessage_resume reply_500 ''10:01''
              (awaiting0\<lparr>pending := remove_nth 0 (pending awaiting0)\<rparr>)"

definition long_input :: string where
  "long_input = replicate 1001 CHR ''a''"

definition long_typed0 :: chatbot where
  "long_typed0 = handleInputChange (loaded0\<lparr>messageInput_value := long_input\<rparr>)"

definition dismissed0 :: chatbot where
  "dismissed0 = hideError (errored0\<lparr>timers := remove_nth 2 (timers errored0)\<rparr>)"






definition blank_typed0 :: chatbot where
  "blank_typed0 = handleInputChange (loaded0\<lparr>messageInput_value := ''   ''\<rparr>)"

definition hello_typed0 :: chatbot where
  "hello_typed0 = handleInputChange (loaded0\<lparr>messageInput_value := ''  Hello  ''\<rparr>)"

text \<open>The sample-question shortcut in the words of the specification: populate the input
  with the literal text, then run the send path.\<close>

definition populate_then_send :: "string \<Rightarrow> string \<Rightarrow> chatbot \<Rightarrow> chatbot" where
  "populate_then_send q ts s = sendMessage ts (s\<lparr>messageInput_value := q\<rparr>)"





section \<open>Properties\<close>

subsection \<open>Frame and effect of the methods\<close>

lemma handleInputChange_frame [simp]:
  "sessionId (handleInputChange s) = sessionId s"
  "isTyping (handleInputChange s) = isTyping s"
  "messageHistory (handleInputChange s) = messageHistory s"
  "messageInput_value (handleInputChange s) = messageInput_value s"
  "welcomeScreen_display (handleInputChange s) = welcomeScreen_display s"
  "chatInterface_display (handleInputChange s) = chatInterface_display s"
  "typingIndicator_display (handleInputChange s) = typingIndicator_display s"
  "loadingOverlay_display (handleInputChange s) = loadingOverlay_display s"
  "errorToast_display (handleInputChange s) = errorToast_display s"
  "errorMessage_textContent (handleInputChange s) = errorMessage_textContent s"
  "chatMessages (handleInputChange s) = chatMessages s"
  "fetched (handleInputChange s) = fetched s"
  "pending (handleInputChange s) = pending s"
  "timers (handleInputChange s) = timers s"
  "console_error (handleInputChange s) = console_error s"
  by (simp_all add: handleInputChange_def Let_def)

lemma handleInputChange_display:
  "sendBtn_disabled (handleInputChange s) = (trim (messageInput_value s) = [] \<or> isTyping s)"
  "charCounter_textContent (handleInputChange s) = string_of_nat (length (messageInput_value s)) @ ''/1000''"
  "charCounter_color (handleInputChange s) =
     (if length (messageInput_value s) > 900 then ''var(--warning-color)'' else ''var(--text-light)'')"
  by (simp_all add: handleInputChange_def Let_def truthy_def)

lemma sendMessage_reject:
  "trim (messageInput_value s) = [] \<or> isTyping s \<Longrightarrow> sendMessage ts s = s"
  by (auto simp add: sendMessage_def truthy_def Let_def)

lemma sendMessage_accept:
  assumes "trim (messageInput_value s) \<noteq> []" "\<not> isTyping s"
  shows "messageHistory (sendMessage ts s) =
           messageHistory s @ [\<lparr>text = trim (messageInput_value s), sender = User, timestamp = ts\<rparr>]"
    and "fetched (sendMessage ts s) =
           fetched s @ [\<lparr>question = trim (messageInput_value s), session_id = sessionId s\<rparr>]"
    and "pending (sendMessage ts s) =
           pending s @ [\<lparr>question = trim (messageInput_value s), session_id = sessionId s\<rparr>]"
    and "chatMessages (sendMessage ts s) =
           chatMessages s @ [\<lparr>avatar_of = User, bubble = formatMessage (trim (messageInput_value s)), time = ts\<rparr>]"
    and "isTyping (sendMessage ts s)"
    and "sessionId (sendMessage ts s) = sessionId s"
    and "messageInput_value (sendMessage ts s) = []"
  using assms
  by (simp_all add: sendMessage_def truthy_def Let_def addMessage_def showTypingIndicator_def
      scrollToBottom_def sendToAPI_call_def showChatInterface_def)


lemma sendMessage_resume_frame:
  "pending (sendMessage_resume out ts s) = pending s"
  "fetched (sendMessage_resume out ts s) = fetched s"
  "isTyping (sendMessage_resume out ts s) = False"
  "messageInput_value (sendMessage_resume out ts s) = messageInput_value s"
  by (simp_all add: sendMessage_resume_def sendMessage_finally_def sendMessage_catch_def
      hideTypingIndicator_def showError_def addMessage_def scrollToBottom_def Let_def
      split: sum.splits option.splits)

lemma sendMessage_resume_success:
  assumes "sendToAPI_result out = Inr b" "answer b = Some a"
  shows "messageHistory (sendMessage_resume out ts s) =
           messageHistory s @ [\<lparr>text = a, sender = Assistant, timestamp = ts\<rparr>]"
    and "chatMessages (sendMessage_resume out ts s) =
           chatMessages s @ [\<lparr>avatar_of = Assistant, bubble = formatMessage a, time = ts\<rparr>]"
    and "sessionId (sendMessage_resume out ts s) =
           (case server_session_id b of
              Some sid \<Rightarrow> if sid \<noteq> [] then Some sid else sessionId s
            | None \<Rightarrow> sessionId s)"
    and "errorToast_display (sendMessage_resume out ts s) = errorToast_display s"
    and "errorMessage_textContent (sendMessage_resume out ts s) = errorMessage_textContent s"
    and "console_error (sendMessage_resume out ts s) = console_error s"
  using assms
  by (simp_all add: sendMessage_resume_def sendMessage_finally_def truthy_def
      hideTypingIndicator_def addMessage_def scrollToBottom_def Let_def
      split: option.splits)

lemma sendMessage_resume_failure:
  assumes "thrown out = Some err"
  shows "messageHistory (sendMessage_resume out ts s) = messageHistory s"
    and "chatMessages (sendMessage_resume out ts s) = chatMessages s"
    and "sessionId (sendMessage_resume out ts s) = sessionId s"
    and "errorToast_display (sendMessage_resume out ts s) = ''block''"
    and "errorMessage_textContent (sendMessage_resume out ts s) =
           ''Failed to get response. Please try again.''"
    and "timers (sendMessage_resume out ts s) = timers s @ [(5000, HideError)]"
    and "console_error (sendMessage_resume out ts s) = console_error s @ [(''Chat error:'', err)]"
  using assms
  by (auto simp add: thrown_def sendMessage_resume_def sendMessage_finally_def sendMessage_catch_def
      hideTypingIndicator_def showError_def addMessage_def Let_def
      split: sum.splits option.splits)

lemma startNewChat_eq:
  "startNewChat now rnd s =
     handleInputChange
       (s\<lparr>sessionId := Some (''session_'' @ string_of_nat now @ ''_'' @ rnd),
          chatMessages := [], messageHistory := [],
          welcomeScreen_display := ''flex'', chatInterface_display := ''none'',
          loadingOverlay_display := ''none'', messageInput_value := []\<rparr>)"
  by (simp add: startNewChat_def showLoading_def hideLoading_def generateSessionId_def
      showWelcomeScreen_def Let_def)

lemma trim_Nil [simp]: "trim [] = []"
  by (simp add: trim_def)

lemma startNewChat_absorb:
  "startNewChat n2 r2 (startNewChat n1 r1 s) = startNewChat n2 r2 s"
  by (simp add: startNewChat_eq handleInputChange_def Let_def)

lemma startNewChat_twice_token:
  "startNewChat n2 r2 (startNewChat n1 r1 s) =
     (startNewChat n1 r1 s)\<lparr>sessionId := Some (''session_'' @ string_of_nat n2 @ ''_'' @ r2)\<rparr>"
  by (simp add: startNewChat_eq handleInputChange_def Let_def)


lemma new_ChatBot_frame:
  "isTyping (new_ChatBot now rnd page) = False"
  "pending (new_ChatBot now rnd page) = pending page"
  "messageHistory (new_ChatBot now rnd page) = []"
  "sessionId (new_ChatBot now rnd page) = Some (''session_'' @ string_of_nat now @ ''_'' @ rnd)"
  "messageInput_value (new_ChatBot now rnd page) = messageInput_value page"
  "fetched (new_ChatBot now rnd page) = fetched page"
  "errorToast_display (new_ChatBot now rnd page) = errorToast_display page"
  by (simp_all add: new_ChatBot_def showWelcomeScreen_def generateSessionId_def)

lemma startNewChat_frame:
  "isTyping (startNewChat now rnd s) = isTyping s"
  "pending (startNewChat now rnd s) = pending s"
  "fetched (startNewChat now rnd s) = fetched s"
  "timers (startNewChat now rnd s) = timers s"
  "errorToast_display (startNewChat now rnd s) = errorToast_display s"
  "errorMessage_textContent (startNewChat now rnd s) = errorMessage_textContent s"
  "messageHistory (startNewChat now rnd s) = []"
  "chatMessages (startNewChat now rnd s) = []"
  "messageInput_value (startNewChat now rnd s) = []"
  "sessionId (startNewChat now rnd s) = Some (''session_'' @ string_of_nat now @ ''_'' @ rnd)"
  by (simp_all add: startNewChat_eq)

lemma showError_frame:
  "isTyping (showError msg s) = isTyping s"
  "pending (showError msg s) = pending s"
  "fetched (showError msg s) = fetched s"
  "sessionId (showError msg s) = sessionId s"
  "messageHistory (showError msg s) = messageHistory s"
  by (simp_all add: showError_def)

lemma run_callback_frame:
  "isTyping (run_callback cb s) = isTyping s"
  "pending (run_callback cb s) = pending s"
  "fetched (run_callback cb s) = fetched s"
  "sessionId (run_callback cb s) = sessionId s"
  "messageHistory (run_callback cb s) = messageHistory s"
  by (simp_all add: run_callback_def hideError_def split: callback.splits)

lemma exportChatHistory_state: "snd (exportChatHistory d s) = s"
  by (simp add: exportChatHistory_def Let_def)

subsection \<open>At most one request in flight\<close>

lemma sendMessage_in_flight: "in_flight_ok s \<Longrightarrow> in_flight_ok (sendMessage ts s)"
proof (cases "trim (messageInput_value s) = [] \<or> isTyping s")
  case True
  assume "in_flight_ok s"
  with True show ?thesis by (simp add: sendMessage_reject)
next
  case False
  assume "in_flight_ok s"
  with False show ?thesis
    by (simp add: in_flight_ok_def sendMessage_accept)
qed

lemma step_in_flight:
  assumes "in_flight_ok s" "step e s = Some s'"
  shows "in_flight_ok s'"
proof (cases e)
  case (Input v)
  with assms show ?thesis by (auto simp: step_def in_flight_ok_def)
next
  case (Send ts)
  with assms show ?thesis by (auto simp: step_def sendMessage_in_flight)
next
  case (Sample q ts)
  from assms(1) have "in_flight_ok (handleInputChange (s\<lparr>messageInput_value := q\<rparr>))"
    by (simp add: in_flight_ok_def)
  then have "in_flight_ok (askSampleQuestion q ts s)"
    unfolding askSampleQuestion_def by (rule sendMessage_in_flight)
  with assms Sample show ?thesis by (auto simp: step_def)
next
  case (NewChat now rnd)
  with assms show ?thesis by (auto simp: step_def in_flight_ok_def startNewChat_frame)
next
  case (Settle i out ts)
  with assms have i: "i < length (pending s)"
    and s': "s' = sendMessage_resume out ts (s\<lparr>pending := remove_nth i (pending s)\<rparr>)"
    by (auto simp: step_def split: if_splits)
  from i assms(1) have "length (pending s) = 1" "i = 0"
    by (auto simp: in_flight_ok_def split: if_splits)
  then have "remove_nth i (pending s) = []"
    by (cases "pending s") (auto simp: remove_nth_def)
  with s' show ?thesis by (simp add: in_flight_ok_def sendMessage_resume_frame)
next
  case (Timer i)
  with assms show ?thesis
    by (auto simp: step_def in_flight_ok_def run_callback_frame split: if_splits)
next
  case Offline
  with assms show ?thesis by (auto simp: step_def in_flight_ok_def showError_frame)
next
  case (GlobalError err)
  with assms show ?thesis by (auto simp: step_def in_flight_ok_def showError_frame)
next
  case (Export d)
  with assms show ?thesis by (auto simp: step_def exportChatHistory_state)
qed

lemma reachable_in_flight: "reachable s \<Longrightarrow> in_flight_ok s"
proof (induction rule: reachable.induct)
  case (init page now rnd)
  then show ?case by (simp add: in_flight_ok_def new_ChatBot_frame)
next
  case (next_state s e s')
  then show ?case by (blast intro: step_in_flight)
qed

lemma reachable_run: "reachable s \<Longrightarrow> run es s = Some s' \<Longrightarrow> reachable s'"
  by (induction es arbitrary: s) (auto split: option.splits intro: reachable.next_state)

lemma trim_Hello: "trim ''  Hello  '' = ''Hello''"
  by (simp add: trim_def isWhiteSpace_def)

lemma reachable_loaded0: "reachable loaded0"
  unfolding loaded0_def by (rule reachable.init) (simp add: page0_def)

lemma awaiting0_run: "run [Input ''  Hello  '', Send ''10:00''] loaded0 = Some awaiting0"
  by (simp add: step_def awaiting0_def)

lemma reachable_awaiting0: "reachable awaiting0"
  by (rule reachable_run [OF reachable_loaded0 awaiting0_run])

lemma loaded0_fields:
  "isTyping loaded0 = False" "pending loaded0 = []" "fetched loaded0 = []"
  "messageHistory loaded0 = []" "messageInput_value loaded0 = []"
  "sessionId loaded0 = Some ''session_1700000000000_k3j9x2m1q''"
  "errorToast_display loaded0 = []" "timers loaded0 = []"
  by (simp_all add: loaded0_def new_ChatBot_def showWelcomeScreen_def generateSessionId_def
      page0_def string_of_nat.simps digit_char_def)

lemma awaiting0_fields:
  "isTyping awaiting0"
  "pending awaiting0 = [\<lparr>question = ''Hello'', session_id = Some ''session_1700000000000_k3j9x2m1q''\<rparr>]"
  "fetched awaiting0 = [\<lparr>question = ''Hello'', session_id = Some ''session_1700000000000_k3j9x2m1q''\<rparr>]"
  "messageHistory awaiting0 = [\<lparr>text = ''Hello'', sender = User, timestamp = ''10:00''\<rparr>]"
  "sessionId awaiting0 = Some ''session_1700000000000_k3j9x2m1q''"
  "messageInput_value awaiting0 = []"
  by (simp_all add: awaiting0_def sendMessage_accept trim_Hello loaded0_fields)

subsection \<open>formatMessage keeps what it does not replace\<close>








section \<open>The claims\<close>

text \<open>
  C1. While a request is in flight (\<open>isTyping\<close> is set, the state the specification calls
  AwaitingResponse), \<open>sendMessage\<close> returns the state it was given: nothing is appended to
  the history, no request is issued. In every state that a session can reach at most one
  request is in flight, and one is in flight exactly when \<open>isTyping\<close> is set.
\<close>

theorem send_while_awaiting_is_noop:
  "(interactionState s = AwaitingResponse \<longleftrightarrow> isTyping s)
   \<and> (isTyping s \<longrightarrow>
        sendMessage ts s = s \<and> step (Send ts) s = Some s
        \<and> messageHistory (sendMessage ts s) = messageHistory s
        \<and> fetched (sendMessage ts s) = fetched s)
   \<and> (reachable s \<longrightarrow> length (pending s) \<le> 1 \<and> (pending s \<noteq> [] \<longleftrightarrow> isTyping s))"
proof (intro conjI impI)
  show "interactionState s = AwaitingResponse \<longleftrightarrow> isTyping s"
    by (simp add: interactionState_def)
next
  assume "isTyping s"
  then show "sendMessage ts s = s" by (simp add: sendMessage_reject)
  then show "step (Send ts) s = Some s" by (simp add: step_def)
  from \<open>sendMessage ts s = s\<close> show "messageHistory (sendMessage ts s) = messageHistory s"
    by simp
  from \<open>sendMessage ts s = s\<close> show "fetched (sendMessage ts s) = fetched s"
    by simp
next
  assume "reachable s"
  then have ok: "in_flight_ok s" by (rule reachable_in_flight)
  then show "length (pending s) \<le> 1"
    by (simp add: in_flight_ok_def split: if_splits)
  from ok show "pending s \<noteq> [] \<longleftrightarrow> isTyping s"
    by (auto simp: in_flight_ok_def split: if_splits)
qed

theorem send_while_awaiting_is_noop_witness:
  "isTyping awaiting0 \<and> reachable awaiting0
   \<and> interactionState awaiting0 = AwaitingResponse
   \<and> sendMessage ''10:01'' awaiting0 = awaiting0
   \<and> step (Send ''10:01'') awaiting0 = Some awaiting0
   \<and> length (pending awaiting0) \<le> 1 \<and> pending awaiting0 \<noteq> []"
  using send_while_awaiting_is_noop [of awaiting0 "''10:01''"]
    awaiting0_fields(1) reachable_awaiting0
  by simp

lemma reply_ok_result:
  "sendToAPI_result reply_ok = Inr \<lparr>answer = Some ''Hi!'', server_session_id = Some ''srv1'', detail = None\<rparr>"
  by (simp add: reply_ok_def sendToAPI_result_def)

lemma reply_500_thrown: "thrown reply_500 = Some ''index unavailable''"
  by (simp add: reply_500_def thrown_def sendToAPI_result_def truthy_def)

lemma superseded0_fields:
  "isTyping superseded0" "messageHistory superseded0 = []"
  "sessionId superseded0 = Some ''session_1700000005000_zzzzzzzzz''"
  "pending superseded0 = [\<lparr>question = ''Hello'', session_id = Some ''session_1700000000000_k3j9x2m1q''\<rparr>]"
  by (simp_all add: superseded0_def startNewChat_frame awaiting0_fields string_of_nat.simps digit_char_def)

text \<open>
  C2, as stated, fails. A request is issued under the first token, new chat replaces the
  token and empties the history, and then the request settles with an answer and a server
  token: the answer is appended to the history of the new session and the server token
  replaces the new token.
\<close>

theorem stale_response_is_applied:
  "step (NewChat 1700000005000 ''zzzzzzzzz'') awaiting0 = Some superseded0
   \<and> session_id (hd (pending superseded0)) = sessionId awaiting0
   \<and> sessionId superseded0 = Some ''session_1700000005000_zzzzzzzzz''
   \<and> messageHistory superseded0 = []
   \<and> step (Settle 0 reply_ok ''10:02'') superseded0 = Some stale0
   \<and> messageHistory stale0 = [\<lparr>text = ''Hi!'', sender = Assistant, timestamp = ''10:02''\<rparr>]
   \<and> messageHistory stale0 \<noteq> messageHistory superseded0
   \<and> sessionId stale0 = Some ''srv1''
   \<and> sessionId stale0 \<noteq> sessionId superseded0"
proof -
  have 1: "step (NewChat 1700000005000 ''zzzzzzzzz'') awaiting0 = Some superseded0"
    by (simp add: step_def superseded0_def)
  have 2: "step (Settle 0 reply_ok ''10:02'') superseded0 = Some stale0"
    by (simp add: step_def stale0_def superseded0_fields)
  have 3: "messageHistory stale0 = [\<lparr>text = ''Hi!'', sender = Assistant, timestamp = ''10:02''\<rparr>]"
    unfolding stale0_def
    by (simp add: sendMessage_resume_success(1) [OF reply_ok_result] superseded0_fields)
  have 4: "sessionId stale0 = Some ''srv1''"
    unfolding stale0_def
    by (simp add: sendMessage_resume_success(3) [OF reply_ok_result])
  from 1 2 3 4 show ?thesis
    by (simp add: superseded0_fields awaiting0_fields)
qed

text \<open>
  C2, amended. The controller does not compare the token of a request with the current
  one. When new chat is triggered while a request is in flight and the request settles
  afterwards, a successful response is applied to the new session: its answer becomes the
  only message of the emptied history, and a non-empty server token replaces the new
  token (an absent or empty one leaves it). A failed response leaves the history empty
  and the new token in place.
\<close>

theorem late_response_lands_in_new_session:
  assumes "pending s = [req]"
    and "s2 = startNewChat now rnd s"
    and "s3 = sendMessage_resume out ts (s2\<lparr>pending := remove_nth 0 (pending s2)\<rparr>)"
  shows "step (Settle 0 out ts) s2 = Some s3
    \<and> messageHistory s2 = []
    \<and> sessionId s2 = Some (''session_'' @ string_of_nat now @ ''_'' @ rnd)
    \<and> (sendToAPI_result out = Inr b \<and> answer b = Some a \<longrightarrow>
         messageHistory s3 = [\<lparr>text = a, sender = Assistant, timestamp = ts\<rparr>]
         \<and> sessionId s3 = (case server_session_id b of
                             Some sid \<Rightarrow> if sid \<noteq> [] then Some sid else sessionId s2
                           | None \<Rightarrow> sessionId s2))
    \<and> (thrown out = Some err \<longrightarrow>
         messageHistory s3 = [] \<and> sessionId s3 = sessionId s2)"
proof (intro conjI impI)
  from assms show "step (Settle 0 out ts) s2 = Some s3"
    by (simp add: step_def startNewChat_frame)
  from assms show "messageHistory s2 = []" by (simp add: startNewChat_frame)
  from assms show "sessionId s2 = Some (''session_'' @ string_of_nat now @ ''_'' @ rnd)"
    by (simp add: startNewChat_frame)
next
  assume ok: "sendToAPI_result out = Inr b \<and> answer b = Some a"
  with assms show "messageHistory s3 = [\<lparr>text = a, sender = Assistant, timestamp = ts\<rparr>]"
    by (simp add: sendMessage_resume_success(1) startNewChat_frame)
  from ok assms show "sessionId s3 = (case server_session_id b of
                             Some sid \<Rightarrow> if sid \<noteq> [] then Some sid else sessionId s2
                           | None \<Rightarrow> sessionId s2)"
    by (simp add: sendMessage_resume_success(3) split: option.splits)
next
  assume "thrown out = Some err"
  with assms show "messageHistory s3 = []" "sessionId s3 = sessionId s2"
    by (simp_all add: sendMessage_resume_failure startNewChat_frame)
qed

theorem late_response_lands_in_new_session_witness:
  "pending awaiting0 = [\<lparr>question = ''Hello'', session_id = Some ''session_1700000000000_k3j9x2m1q''\<rparr>]
   \<and> step (Settle 0 reply_ok ''10:02'') superseded0 = Some stale0
   \<and> messageHistory stale0 = [\<lparr>text = ''Hi!'', sender = Assistant, timestamp = ''10:02''\<rparr>]
   \<and> sessionId stale0 = Some ''srv1''
   \<and> thrown reply_500 = Some ''index unavailable''
   \<and> messageHistory (sendMessage_resume reply_500 ''10:02''
        (superseded0\<lparr>pending := remove_nth 0 (pending superseded0)\<rparr>)) = []
   \<and> sessionId (sendMessage_resume reply_500 ''10:02''
        (superseded0\<lparr>pending := remove_nth 0 (pending superseded0)\<rparr>))
       = Some ''session_1700000005000_zzzzzzzzz''"
  using late_response_lands_in_new_session [OF awaiting0_fields(2) superseded0_def stale0_def,
      of "\<lparr>answer = Some ''Hi!'', server_session_id = Some ''srv1'', detail = None\<rparr>" "''Hi!''"
         "''index unavailable''"]
    late_response_lands_in_new_session [OF awaiting0_fields(2) superseded0_def refl,
      of reply_500 "''10:02''" "\<lparr>answer = None, server_session_id = None, detail = None\<rparr>" "''x''"
         "''index unavailable''"]
    reply_ok_result reply_500_thrown awaiting0_fields(2) superseded0_fields(3)
  by simp

subsection \<open>Trimming\<close>

lemma trim_decomposition:
  "v = takeWhile isWhiteSpace v @ trim v
         @ rev (takeWhile isWhiteSpace (rev (dropWhile isWhiteSpace v)))"
proof -
  let ?w = "dropWhile isWhiteSpace v"
  have "?w = rev (dropWhile isWhiteSpace (rev ?w)) @ rev (takeWhile isWhiteSpace (rev ?w))"
    by (simp only: rev_append [symmetric] takeWhile_dropWhile_id rev_rev_ident)
  then have "?w = trim v @ rev (takeWhile isWhiteSpace (rev ?w))"
    by (simp only: trim_def)
  moreover have "v = takeWhile isWhiteSpace v @ ?w" by simp
  ultimately show ?thesis by metis
qed

lemma trim_ends:
  assumes "trim v \<noteq> []"
  shows "\<not> isWhiteSpace (hd (trim v))" "\<not> isWhiteSpace (last (trim v))"
proof -
  let ?w = "dropWhile isWhiteSpace v"
  let ?u = "dropWhile isWhiteSpace (rev ?w)"
  from assms have u: "?u \<noteq> []" by (simp add: trim_def)
  have w: "?w \<noteq> []"
  proof
    assume "?w = []"
    then have "?u = []" by (metis dropWhile.simps(1) rev.simps(1))
    with u show False by contradiction
  qed
  from u have "\<not> isWhiteSpace (hd ?u)" by (rule hd_dropWhile)
  with u show "\<not> isWhiteSpace (last (trim v))"
    by (simp add: trim_def last_rev)
  from w have hw: "\<not> isWhiteSpace (hd ?w)" by (rule hd_dropWhile)
  have "rev ?w = takeWhile isWhiteSpace (rev ?w) @ ?u" by simp
  with u have "last (rev ?w) = last ?u" by (metis last_appendR)
  with w have "last ?u = hd ?w" by (simp add: last_rev)
  with u hw show "\<not> isWhiteSpace (hd (trim v))"
    by (simp add: trim_def hd_rev)
qed

lemma trim_clean:
  assumes "v \<noteq> []" "\<not> isWhiteSpace (hd v)" "\<not> isWhiteSpace (last v)"
  shows "trim v = v"
proof -
  from assms have 1: "dropWhile isWhiteSpace v = v" by (cases v) auto
  from assms have "rev v \<noteq> []" "\<not> isWhiteSpace (hd (rev v))" by (simp_all add: hd_rev)
  then have "dropWhile isWhiteSpace (rev v) = rev v" by (cases "rev v") auto
  with 1 show ?thesis by (simp add: trim_def)
qed

lemma trim_long_input: "trim long_input = long_input"
  unfolding long_input_def
  by (rule trim_clean) (simp_all add: isWhiteSpace_def)

lemma long_typed0_fields:
  "\<not> isTyping long_typed0" "messageInput_value long_typed0 = long_input"
  "fetched long_typed0 = []" "messageHistory long_typed0 = []"
  "sessionId long_typed0 = Some ''session_1700000000000_k3j9x2m1q''"
  by (simp_all add: long_typed0_def loaded0_fields)

lemma long_input_nonempty: "long_input \<noteq> []"
  by (simp add: long_input_def)

text \<open>
  C3, as stated, fails. With 1001 letters in the input the send button is enabled, and
  \<open>sendMessage\<close> appends the message and issues the request.
\<close>

theorem over_length_input_is_sent:
  "length (trim long_input) = 1001
   \<and> step (Input long_input) loaded0 = Some long_typed0
   \<and> \<not> sendBtn_disabled long_typed0
   \<and> messageHistory long_typed0 = [] \<and> fetched long_typed0 = []
   \<and> messageHistory (sendMessage ''10:00'' long_typed0)
       = [\<lparr>text = long_input, sender = User, timestamp = ''10:00''\<rparr>]
   \<and> fetched (sendMessage ''10:00'' long_typed0)
       = [\<lparr>question = long_input, session_id = Some ''session_1700000000000_k3j9x2m1q''\<rparr>]"
proof -
  have "length (trim long_input) = 1001"
    by (simp add: trim_long_input) (simp add: long_input_def)
  moreover have "step (Input long_input) loaded0 = Some long_typed0"
    by (simp add: step_def long_typed0_def)
  moreover have "\<not> sendBtn_disabled long_typed0"
    unfolding long_typed0_def
    by (simp add: handleInputChange_display trim_long_input long_input_nonempty loaded0_fields)
  moreover have "trim (messageInput_value long_typed0) \<noteq> []"
    by (simp add: long_typed0_fields trim_long_input long_input_nonempty)
  ultimately show ?thesis
    by (simp add: sendMessage_accept long_typed0_fields trim_long_input)
qed

text \<open>
  C3, amended. The controller has no length check: the figure 1000 occurs only in the text
  of the character counter. Whenever the trimmed input is not empty and no request is in
  flight, whatever its length, the send button is enabled and \<open>sendMessage\<close> appends the
  whole trimmed text as the user message and sends it as the question. Handling an input
  change never alters the input, so nothing is truncated.
\<close>

theorem send_ignores_length:
  assumes "\<not> isTyping s" and "trim (messageInput_value s) \<noteq> []"
  shows "\<not> sendBtn_disabled (handleInputChange s)
    \<and> messageInput_value (handleInputChange s) = messageInput_value s
    \<and> charCounter_textContent (handleInputChange s)
        = string_of_nat (length (messageInput_value s)) @ ''/1000''
    \<and> messageHistory (sendMessage ts s)
        = messageHistory s @ [\<lparr>text = trim (messageInput_value s), sender = User, timestamp = ts\<rparr>]
    \<and> fetched (sendMessage ts s)
        = fetched s @ [\<lparr>question = trim (messageInput_value s), session_id = sessionId s\<rparr>]"
  using assms by (simp add: handleInputChange_display sendMessage_accept)

theorem send_ignores_length_witness:
  "\<not> isTyping long_typed0 \<and> length (trim (messageInput_value long_typed0)) = 1001
   \<and> \<not> sendBtn_disabled (handleInputChange long_typed0)
   \<and> messageInput_value (handleInputChange long_typed0) = long_input
   \<and> messageHistory (sendMessage ''10:00'' long_typed0)
       = [\<lparr>text = long_input, sender = User, timestamp = ''10:00''\<rparr>]
   \<and> fetched (sendMessage ''10:00'' long_typed0)
       = [\<lparr>question = long_input, session_id = Some ''session_1700000000000_k3j9x2m1q''\<rparr>]"
proof -
  have t: "trim (messageInput_value long_typed0) \<noteq> []"
    by (simp add: long_typed0_fields trim_long_input long_input_nonempty)
  have l: "length (trim (messageInput_value long_typed0)) = 1001"
    by (simp add: long_typed0_fields trim_long_input) (simp add: long_input_def)
  from send_ignores_length [OF long_typed0_fields(1) t, of "''10:00''"] l
  show ?thesis
    by (simp add: long_typed0_fields trim_long_input)
qed

subsection \<open>A failed request\<close>

lemma server_error_thrown:
  assumes "\<not> ok r" "parsed r = Some b" "detail b = Some d" "d \<noteq> []"
  shows "thrown (Response r) = Some d"
  using assms by (simp add: thrown_def sendToAPI_result_def truthy_def)

lemma hideError_frame:
  "errorToast_display (hideError s) = ''none''"
  "isTyping (hideError s) = isTyping s"
  "messageHistory (hideError s) = messageHistory s"
  "messageInput_value (hideError s) = messageInput_value s"
  by (simp_all add: hideError_def)

text \<open>
  C4, as stated, fails. The server answers 500 with detail \<open>index unavailable\<close>: the
  toast is shown, but its text is the fixed sentence and not the detail.
\<close>

theorem server_detail_is_not_displayed:
  "step (Settle 0 reply_500 ''10:01'') awaiting0 = Some errored0
   \<and> errorToast_display errored0 = ''block''
   \<and> errorMessage_textContent errored0 = ''Failed to get response. Please try again.''
   \<and> errorMessage_textContent errored0 \<noteq> ''index unavailable''"
proof -
  have "step (Settle 0 reply_500 ''10:01'') awaiting0 = Some errored0"
    by (simp add: step_def errored0_def awaiting0_fields)
  moreover have "errorToast_display errored0 = ''block''"
    unfolding errored0_def by (simp add: sendMessage_resume_failure [OF reply_500_thrown])
  moreover have "errorMessage_textContent errored0 = ''Failed to get response. Please try again.''"
    unfolding errored0_def by (simp add: sendMessage_resume_failure [OF reply_500_thrown])
  ultimately show ?thesis by simp
qed

text \<open>
  C4, amended. When the call settles with a response that is not ok and whose body carries
  a non-empty detail, the error toast is displayed with the fixed text
  \<open>Failed to get response. Please try again.\<close>; the detail is the message of the error
  thrown and goes to the console only. The history is unchanged, \<open>isTyping\<close> is reset,
  the state is the error state, and a timer of 5000 ms is pending; when it fires the toast
  is hidden, the history is still unchanged, and with a blank input the state is idle.
\<close>

theorem failed_request_shows_generic_error:
  assumes "\<not> ok r" and "parsed r = Some b" and "detail b = Some d" and "d \<noteq> []"
    and "s' = sendMessage_resume (Response r) ts s"
    and "s'' = hideError (s'\<lparr>timers := remove_nth (length (timers s)) (timers s')\<rparr>)"
  shows "errorToast_display s' = ''block''
    \<and> errorMessage_textContent s' = ''Failed to get response. Please try again.''
    \<and> console_error s' = console_error s @ [(''Chat error:'', d)]
    \<and> messageHistory s' = messageHistory s
    \<and> \<not> isTyping s'
    \<and> interactionState s' = Errored
    \<and> timers s' = timers s @ [(5000, HideError)]
    \<and> step (Timer (length (timers s))) s' = Some s''
    \<and> errorToast_display s'' = ''none''
    \<and> messageHistory s'' = messageHistory s
    \<and> (trim (messageInput_value s) = [] \<longrightarrow> interactionState s'' = Idle)"
proof -
  have th: "thrown (Response r) = Some d"
    using assms(1-4) by (rule server_error_thrown)
  note f = sendMessage_resume_failure [OF th, of ts s] sendMessage_resume_frame [of "Response r" ts s]
  from f assms(5) have 1: "errorToast_display s' = ''block''"
    "errorMessage_textContent s' = ''Failed to get response. Please try again.''"
    "console_error s' = console_error s @ [(''Chat error:'', d)]"
    "messageHistory s' = messageHistory s" "\<not> isTyping s'"
    "timers s' = timers s @ [(5000, HideError)]"
    "messageInput_value s' = messageInput_value s"
    by simp_all
  from 1 have 2: "interactionState s' = Errored"
    by (simp add: interactionState_def)
  from 1(6) have 3: "step (Timer (length (timers s))) s' = Some s''"
    by (simp add: step_def run_callback_def assms(6) nth_append)
  have 4: "errorToast_display s'' = ''none''" "messageHistory s'' = messageHistory s"
    "isTyping s'' = False" "messageInput_value s'' = messageInput_value s"
    using 1 by (simp_all add: assms(6) hideError_frame)
  from 4 have 5: "trim (messageInput_value s) = [] \<longrightarrow> interactionState s'' = Idle"
    by (simp add: interactionState_def truthy_def)
  from 1 2 3 4 5 show ?thesis by simp
qed

lemma awaiting0_environment:
  "length (timers awaiting0) = 2" "console_error awaiting0 = []"
  by (simp_all add: awaiting0_def sendMessage_def Let_def truthy_def trim_Hello addMessage_def
      scrollToBottom_def showTypingIndicator_def sendToAPI_call_def showChatInterface_def
      loaded0_fields loaded0_def new_ChatBot_def showWelcomeScreen_def generateSessionId_def
      page0_def)

theorem failed_request_shows_generic_error_witness:
  "thrown reply_500 = Some ''index unavailable''
   \<and> errorToast_display errored0 = ''block''
   \<and> errorMessage_textContent errored0 = ''Failed to get response. Please try again.''
   \<and> console_error errored0 = [(''Chat error:'', ''index unavailable'')]
   \<and> messageHistory errored0 = [\<lparr>text = ''Hello'', sender = User, timestamp = ''10:00''\<rparr>]
   \<and> interactionState errored0 = Errored
   \<and> step (Timer 2) errored0 = Some dismissed0
   \<and> errorToast_display dismissed0 = ''none''
   \<and> interactionState dismissed0 = Idle"
proof -
  let ?s = "awaiting0\<lparr>pending := remove_nth 0 (pending awaiting0)\<rparr>"
  let ?r = "\<lparr>ok = False, status = 500,
       parsed = Some \<lparr>answer = None, server_session_id = None,
                      detail = Some ''index unavailable''\<rparr>\<rparr>"
  have e: "errored0 = sendMessage_resume (Response ?r) ''10:01'' ?s"
    by (simp add: errored0_def reply_500_def)
  have d: "dismissed0 = hideError (errored0\<lparr>timers := remove_nth (length (timers ?s)) (timers errored0)\<rparr>)"
    by (simp add: dismissed0_def awaiting0_environment)
  from failed_request_shows_generic_error [of ?r _ "''index unavailable''" errored0 "''10:01''" ?s dismissed0, OF _ _ _ _ e d]
  show ?thesis
    by (simp add: reply_500_thrown awaiting0_fields awaiting0_environment)
qed

subsection \<open>The token between resets\<close>











text \<open>
  C6. The input is the trimmed text between a run of white space before it and a run of
  white space after it, and the trimmed text neither starts nor ends with white space: only
  the ends are removed. An input that is blank after trimming makes \<open>sendMessage\<close> do
  nothing. Otherwise, with no request in flight, the trimmed text is the text of the user
  message appended to the history and the question of the request issued.
\<close>

theorem trimmed_text_is_stored_and_sent:
  assumes "messageInput_value s = v"
  shows "v = takeWhile isWhiteSpace v @ trim v
             @ rev (takeWhile isWhiteSpace (rev (dropWhile isWhiteSpace v)))
    \<and> (trim v \<noteq> [] \<longrightarrow> \<not> isWhiteSpace (hd (trim v)) \<and> \<not> isWhiteSpace (last (trim v)))
    \<and> (trim v = [] \<longrightarrow> sendMessage ts s = s)
    \<and> (trim v \<noteq> [] \<and> \<not> isTyping s \<longrightarrow>
         messageHistory (sendMessage ts s)
           = messageHistory s @ [\<lparr>text = trim v, sender = User, timestamp = ts\<rparr>]
         \<and> fetched (sendMessage ts s)
           = fetched s @ [\<lparr>question = trim v, session_id = sessionId s\<rparr>])"
proof (intro conjI impI)
  show "v = takeWhile isWhiteSpace v @ trim v
             @ rev (takeWhile isWhiteSpace (rev (dropWhile isWhiteSpace v)))"
    by (rule trim_decomposition)
next
  assume "trim v \<noteq> []"
  then show "\<not> isWhiteSpace (hd (trim v))" "\<not> isWhiteSpace (last (trim v))"
    by (rule trim_ends)+
next
  assume "trim v = []"
  with assms show "sendMessage ts s = s" by (simp add: sendMessage_reject)
next
  assume a: "trim v \<noteq> [] \<and> \<not> isTyping s"
  with assms show "messageHistory (sendMessage ts s)
           = messageHistory s @ [\<lparr>text = trim v, sender = User, timestamp = ts\<rparr>]"
    by (simp add: sendMessage_accept)
  from a assms show "fetched (sendMessage ts s)
           = fetched s @ [\<lparr>question = trim v, session_id = sessionId s\<rparr>]"
    by (simp add: sendMessage_accept)
qed

lemma typed0_fields:
  "messageInput_value hello_typed0 = ''  Hello  ''" "\<not> isTyping hello_typed0"
  "messageHistory hello_typed0 = []" "fetched hello_typed0 = []"
  "sessionId hello_typed0 = Some ''session_1700000000000_k3j9x2m1q''"
  "messageInput_value blank_typed0 = ''   ''"
  by (simp_all add: hello_typed0_def blank_typed0_def loaded0_fields)

theorem trimmed_text_is_stored_and_sent_witness:
  "messageInput_value hello_typed0 = ''  Hello  '' \<and> trim ''  Hello  '' = ''Hello''
   \<and> \<not> isTyping hello_typed0
   \<and> messageHistory (sendMessage ''10:00'' hello_typed0)
       = [\<lparr>text = ''Hello'', sender = User, timestamp = ''10:00''\<rparr>]
   \<and> fetched (sendMessage ''10:00'' hello_typed0)
       = [\<lparr>question = ''Hello'', session_id = Some ''session_1700000000000_k3j9x2m1q''\<rparr>]
   \<and> messageInput_value blank_typed0 = ''   '' \<and> trim ''   '' = []
   \<and> sendMessage ''10:00'' blank_typed0 = blank_typed0"
proof -
  have b: "trim ''   '' = []" by (simp add: trim_def isWhiteSpace_def)
  from trimmed_text_is_stored_and_sent [OF typed0_fields(1), of "''10:00''"]
    trimmed_text_is_stored_and_sent [OF typed0_fields(6), of "''10:00''"]
  show ?thesis
    by (simp add: trim_Hello b typed0_fields)
qed

text \<open>
  C7, as stated, fails. New chat while a request is in flight, once or twice, leaves
  \<open>isTyping\<close> set and the send button disabled: the state is not idle. And the second
  new chat, at another time, gives another token than the first.
\<close>

theorem new_chat_while_awaiting_is_not_idle:
  "interactionState (startNewChat 1700000005000 ''zzzzzzzzz'' awaiting0) = AwaitingResponse
   \<and> interactionState
        (startNewChat 1700000006000 ''yyyyyyyyy'' (startNewChat 1700000005000 ''zzzzzzzzz'' awaiting0))
       \<noteq> Idle
   \<and> sendBtn_disabled
        (startNewChat 1700000006000 ''yyyyyyyyy'' (startNewChat 1700000005000 ''zzzzzzzzz'' awaiting0))
   \<and> sessionId
        (startNewChat 1700000006000 ''yyyyyyyyy'' (startNewChat 1700000005000 ''zzzzzzzzz'' awaiting0))
       \<noteq> sessionId (startNewChat 1700000005000 ''zzzzzzzzz'' awaiting0)"
  by (simp add: interactionState_def startNewChat_frame awaiting0_fields startNewChat_eq
      handleInputChange_display string_of_nat.simps digit_char_def)

text \<open>
  C7, amended. A second new chat absorbs the first: the result is the state that the
  second alone gives, and it is the result of the first but for the token, which is the
  one generated by the second (the same when clock and random readings are the same).
  The history and the rendered messages are empty, the input is cleared, the token is the
  fresh one. \<open>isTyping\<close> and the error toast are left as they were, so the state is idle
  if no request was in flight and no error was displayed.
\<close>

theorem new_chat_twice:
  "startNewChat n2 r2 (startNewChat n1 r1 s) = startNewChat n2 r2 s
   \<and> startNewChat n2 r2 (startNewChat n1 r1 s)
       = (startNewChat n1 r1 s)\<lparr>sessionId := Some (''session_'' @ string_of_nat n2 @ ''_'' @ r2)\<rparr>
   \<and> startNewChat n1 r1 (startNewChat n1 r1 s) = startNewChat n1 r1 s
   \<and> messageHistory (startNewChat n2 r2 (startNewChat n1 r1 s)) = []
   \<and> chatMessages (startNewChat n2 r2 (startNewChat n1 r1 s)) = []
   \<and> messageInput_value (startNewChat n2 r2 (startNewChat n1 r1 s)) = []
   \<and> sessionId (startNewChat n2 r2 (startNewChat n1 r1 s))
       = Some (''session_'' @ string_of_nat n2 @ ''_'' @ r2)
   \<and> isTyping (startNewChat n2 r2 (startNewChat n1 r1 s)) = isTyping s
   \<and> errorToast_display (startNewChat n2 r2 (startNewChat n1 r1 s)) = errorToast_display s
   \<and> (\<not> isTyping s \<and> errorToast_display s \<noteq> ''block'' \<longrightarrow>
        interactionState (startNewChat n1 r1 s) = Idle
        \<and> interactionState (startNewChat n2 r2 (startNewChat n1 r1 s)) = Idle)"
proof -
  have idle: "\<not> isTyping s \<and> errorToast_display s \<noteq> ''block'' \<longrightarrow>
        interactionState (startNewChat n r s) = Idle" for n r
    by (simp add: interactionState_def startNewChat_frame truthy_def)
  have twice: "startNewChat n2 r2 (startNewChat n1 r1 s)
       = (startNewChat n1 r1 s)\<lparr>sessionId := Some (''session_'' @ string_of_nat n2 @ ''_'' @ r2)\<rparr>"
    by (rule startNewChat_twice_token)
  from idle [of n1 r1] idle [of n2 r2] twice
  show ?thesis
    by (simp add: startNewChat_absorb startNewChat_frame)
qed

theorem new_chat_twice_witness:
  "\<not> isTyping loaded0 \<and> errorToast_display loaded0 \<noteq> ''block''
   \<and> startNewChat 1700000006000 ''yyyyyyyyy'' (startNewChat 1700000005000 ''zzzzzzzzz'' loaded0)
       = startNewChat 1700000006000 ''yyyyyyyyy'' loaded0
   \<and> interactionState
        (startNewChat 1700000006000 ''yyyyyyyyy'' (startNewChat 1700000005000 ''zzzzzzzzz'' loaded0))
       = Idle
   \<and> sessionId
        (startNewChat 1700000006000 ''yyyyyyyyy'' (startNewChat 1700000005000 ''zzzzzzzzz'' loaded0))
       = Some ''session_1700000006000_yyyyyyyyy''"
proof -
  let ?once = "startNewChat 1700000005000 ''zzzzzzzzz'' loaded0"
  let ?twice = "startNewChat 1700000006000 ''yyyyyyyyy'' ?once"
  note w = new_chat_twice [of 1700000006000 "''yyyyyyyyy''" 1700000005000 "''zzzzzzzzz''" loaded0]
  have h: "\<not> isTyping loaded0 \<and> errorToast_display loaded0 \<noteq> ''block''"
    by (simp add: loaded0_fields)
  from w have a: "?twice = startNewChat 1700000006000 ''yyyyyyyyy'' loaded0"
    by blast
  from w h have b: "interactionState ?twice = Idle"
    by blast
  from w have "sessionId ?twice
      = Some (''session_'' @ string_of_nat 1700000006000 @ ''_'' @ ''yyyyyyyyy'')"
    by blast
  then have c: "sessionId ?twice = Some ''session_1700000006000_yyyyyyyyy''"
    by (simp add: string_of_nat.simps digit_char_def)
  from h a b c show ?thesis by blast
qed

subsection \<open>The sample question\<close>

lemma handleInputChange_absorb:
  "handleInputChange ((handleInputChange s)\<lparr>messageInput_value := v\<rparr>)
     = handleInputChange (s\<lparr>messageInput_value := v\<rparr>)"
  by (simp add: handleInputChange_def Let_def)

lemma sendMessage_after_input_change:
  assumes "trim (messageInput_value s) \<noteq> []" "\<not> isTyping s"
  shows "sendMessage ts (handleInputChange s) = sendMessage ts s"
proof -
  have "chatInterface_display (handleInputChange ((handleInputChange s)\<lparr>messageInput_value := []\<rparr>))
      = chatInterface_display (handleInputChange (s\<lparr>messageInput_value := []\<rparr>))"
    by (simp only: handleInputChange_absorb)
  with assms show ?thesis
    by (simp add: sendMessage_def truthy_def Let_def handleInputChange_absorb)
qed

lemma sendMessage_rejected_input_change:
  assumes "trim (messageInput_value s) = [] \<or> isTyping s"
  shows "sendMessage ts (handleInputChange s) = handleInputChange (sendMessage ts s)"
  using assms by (simp add: sendMessage_reject)

lemma handleInputChange_after_send:
  assumes "trim (messageInput_value s) \<noteq> []" "\<not> isTyping s"
  shows "handleInputChange (sendMessage ts s) = sendMessage ts s"
  using assms
  by (simp add: sendMessage_def truthy_def Let_def addMessage_def showTypingIndicator_def
      scrollToBottom_def sendToAPI_call_def showChatInterface_def handleInputChange_def)

text \<open>
  C8. The sample-question shortcut is what the user's own path does: the state after
  \<open>askSampleQuestion q\<close> is the state after the input event with text \<open>q\<close> followed by
  send. Against the shortcut in the words of the specification (populate the input, run
  the send path): when the send is accepted the two states are equal; in every case they
  agree on the history, the rendered messages, the requests, the token, \<open>isTyping\<close> and
  the input, and the shortcut's state is the other one with the counter and the send
  button refreshed for the input.
\<close>

theorem sample_question_is_ordinary_send:
  "step (Sample q ts) s = run [Input q, Send ts] s
   \<and> askSampleQuestion q ts s = handleInputChange (populate_then_send q ts s)
   \<and> (trim q \<noteq> [] \<and> \<not> isTyping s \<longrightarrow> askSampleQuestion q ts s = populate_then_send q ts s)
   \<and> messageHistory (askSampleQuestion q ts s) = messageHistory (populate_then_send q ts s)
   \<and> chatMessages (askSampleQuestion q ts s) = chatMessages (populate_then_send q ts s)
   \<and> fetched (askSampleQuestion q ts s) = fetched (populate_then_send q ts s)
   \<and> pending (askSampleQuestion q ts s) = pending (populate_then_send q ts s)
   \<and> sessionId (askSampleQuestion q ts s) = sessionId (populate_then_send q ts s)
   \<and> isTyping (askSampleQuestion q ts s) = isTyping (populate_then_send q ts s)
   \<and> messageInput_value (askSampleQuestion q ts s)
       = messageInput_value (populate_then_send q ts s)"
proof -
  let ?p = "s\<lparr>messageInput_value := q\<rparr>"
  have 1: "step (Sample q ts) s = run [Input q, Send ts] s"
    by (simp add: step_def askSampleQuestion_def)
  have 2: "askSampleQuestion q ts s = handleInputChange (populate_then_send q ts s)"
  proof (cases "trim q \<noteq> [] \<and> \<not> isTyping s")
    case True
    then have c: "trim (messageInput_value ?p) \<noteq> []" "\<not> isTyping ?p" by simp_all
    from c have a: "sendMessage ts (handleInputChange ?p) = sendMessage ts ?p"
      by (rule sendMessage_after_input_change)
    from c have b: "handleInputChange (sendMessage ts ?p) = sendMessage ts ?p"
      by (rule handleInputChange_after_send)
    show ?thesis
      unfolding askSampleQuestion_def populate_then_send_def
      by (simp only: a b)
  next
    case False
    then have "trim (messageInput_value ?p) = [] \<or> isTyping ?p" by simp
    then show ?thesis
      unfolding askSampleQuestion_def populate_then_send_def
      by (rule sendMessage_rejected_input_change)
  qed
  have 3: "trim q \<noteq> [] \<and> \<not> isTyping s \<longrightarrow> askSampleQuestion q ts s = populate_then_send q ts s"
  proof
    assume "trim q \<noteq> [] \<and> \<not> isTyping s"
    then have "trim (messageInput_value ?p) \<noteq> []" "\<not> isTyping ?p" by simp_all
    then show "askSampleQuestion q ts s = populate_then_send q ts s"
      unfolding askSampleQuestion_def populate_then_send_def
      by (rule sendMessage_after_input_change)
  qed
  from 1 3 show ?thesis
    by (simp add: 2)
qed

theorem sample_question_is_ordinary_send_witness:
  "trim ''  Hello  '' \<noteq> [] \<and> \<not> isTyping loaded0
   \<and> askSampleQuestion ''  Hello  '' ''10:00'' loaded0
       = populate_then_send ''  Hello  '' ''10:00'' loaded0
   \<and> askSampleQuestion ''  Hello  '' ''10:00'' loaded0 = awaiting0
   \<and> step (Sample ''  Hello  '' ''10:00'') loaded0 = Some awaiting0"
proof -
  note w = sample_question_is_ordinary_send [of "''  Hello  ''" "''10:00''" loaded0]
  have h: "trim ''  Hello  '' \<noteq> [] \<and> \<not> isTyping loaded0"
    by (simp add: trim_Hello loaded0_fields)
  from w h have a: "askSampleQuestion ''  Hello  '' ''10:00'' loaded0
       = populate_then_send ''  Hello  '' ''10:00'' loaded0"
    by blast
  have b: "askSampleQuestion ''  Hello  '' ''10:00'' loaded0 = awaiting0"
    by (simp add: askSampleQuestion_def awaiting0_def)
  have c: "step (Sample ''  Hello  '' ''10:00'') loaded0 = Some awaiting0"
    by (simp add: step_def b)
  from h a b c show ?thesis by blast
qed

subsection \<open>Export\<close>





subsection \<open>Rendering\<close>







end
